theory Spec2Isabelle
  imports Main "HOL-Library.Word"
begin

section \<open>The task routes of the to-do backend\<close>

text \<open>
  The development follows \<^verbatim>\<open>backend/routes/tasks.js\<close>: four Express handlers over one
  Mongoose model, \<^verbatim>\<open>Task\<close>, whose schema (\<^verbatim>\<open>models/Task.js\<close>, printed in the ReadMe) is
  \<^verbatim>\<open>title: {type: String, required: true}\<close>, \<^verbatim>\<open>completed: {type: Boolean, default: false}\<close>.

  A handler is a function from the request and the collection to the response and the
  collection afterwards. Two things come from outside a handler and are arguments of
  its model: whether the call to the database goes through (\<open>db_up\<close>), and, for a new
  document, the ObjectId that the \<^verbatim>\<open>Task\<close> constructor generates. The calls into Mongoose
  (\<^verbatim>\<open>save\<close>, \<^verbatim>\<open>find\<close>, \<^verbatim>\<open>findByIdAndUpdate\<close>, \<^verbatim>\<open>findByIdAndDelete\<close>) are modelled
  by what the library does for this schema: casting, the \<^verbatim>\<open>required\<close> validator, the
  unique index on \<^verbatim>\<open>_id\<close>, and \<^verbatim>\<open>null\<close> for a query that matches nothing. The
  ReadMe installs the library without a version; it is taken as its current release
  behaves (Mongoose 8).
\<close>

subsection \<open>Identifiers\<close>

text \<open>
  An ObjectId is a 12-byte value. A route parameter is a string; Mongoose casts it to an
  ObjectId when it is 24 hexadecimal digits (either case) and raises a CastError
  otherwise. In a JSON response the \<^verbatim>\<open>_id\<close> is printed as 24 lower-case digits.
\<close>

type_synonym object_id = "96 word"

definition hexDigitValue :: "char \<Rightarrow> nat option" where
  "hexDigitValue c =
     (let n = (of_char c :: nat) in
      if 48 \<le> n \<and> n \<le> 57 then Some (n - 48)
      else if 97 \<le> n \<and> n \<le> 102 then Some (n - 87)
      else if 65 \<le> n \<and> n \<le> 70 then Some (n - 55)
      else None)"

fun parseHex :: "nat \<Rightarrow> string \<Rightarrow> nat option" where
  "parseHex acc [] = Some acc"
| "parseHex acc (c # cs) =
     (case hexDigitValue c of
        None \<Rightarrow> None
      | Some d \<Rightarrow> parseHex (16 * acc + d) cs)"

definition castObjectId :: "string \<Rightarrow> object_id option" where
  "castObjectId s =
     (if length s = 24 then map_option word_of_nat (parseHex 0 s) else None)"

definition hexDigit :: "nat \<Rightarrow> char" where
  "hexDigit d = ''0123456789abcdef'' ! d"

fun hexDigits :: "nat \<Rightarrow> nat \<Rightarrow> string" where
  "hexDigits 0 v = []"
| "hexDigits (Suc n) v = hexDigits n (v div 16) @ [hexDigit (v mod 16)]"

definition toHexString :: "object_id \<Rightarrow> string" where
  "toHexString oid = hexDigits 24 (unat oid)"

subsection \<open>Requests, documents and responses\<close>

text \<open>
  \<^verbatim>\<open>express.json()\<close> leaves the parsed object in \<^verbatim>\<open>req.body\<close>; a key that is absent
  reads as \<^verbatim>\<open>undefined\<close> (\<open>None\<close>). A value is any JSON value. A number is carried
  by the text JavaScript prints for it (\<^verbatim>\<open>String(n)\<close>: \<^verbatim>\<open>1\<close>, \<^verbatim>\<open>0.5\<close>, \<^verbatim>\<open>1e+21\<close>), which is
  all that the casts below look at; an object by its members in the order of the text,
  where a repeated key reads as its last occurrence.
\<close>

datatype json =
    JNull
  | JBool bool
  | JNum string
  | JStr string
  | JArr "json list"
  | JObj "(string \<times> json) list"

definition member_of :: "(string \<times> json) list \<Rightarrow> string \<Rightarrow> json option" where
  "member_of members k = map_of (rev members) k"

type_synonym req_body = "string \<rightharpoonup> json"

text \<open>
  A document of the collection. Neither path is declared non-nullable in storage: a
  field holds a value of its type or \<^verbatim>\<open>null\<close> (\<open>None\<close>). The version key \<^verbatim>\<open>__v\<close> that
  Mongoose adds to a document is constant here and left out.
\<close>

record task =
  task_id :: object_id
  title :: "string option"
  completed :: "bool option"

datatype error = CastError | ValidationError | DuplicateKeyError | MongoNetworkError

datatype res_body =
    JsonTask task
  | JsonTasks "task list"
  | JsonNull
  | JsonMessage string
  | Empty

record response =
  status :: nat
  body :: res_body

subsection \<open>The model \<^verbatim>\<open>Task\<close>\<close>

text \<open>
  The String cast of \<^verbatim>\<open>title\<close>: \<^verbatim>\<open>null\<close> and \<^verbatim>\<open>undefined\<close> stay empty, a string is
  kept, a boolean and a number are printed, an object with a non-empty string \<^verbatim>\<open>_id\<close>
  is read as that \<^verbatim>\<open>_id\<close>; an array and any other object are a CastError.
\<close>

fun castString :: "json option \<Rightarrow> error + string option" where
  "castString None = Inr None"
| "castString (Some JNull) = Inr None"
| "castString (Some (JStr s)) = Inr (Some s)"
| "castString (Some (JBool b)) = Inr (Some (if b then ''true'' else ''false''))"
| "castString (Some (JNum n)) = Inr (Some n)"
| "castString (Some (JArr xs)) = Inl CastError"
| "castString (Some (JObj members)) =
     (case member_of members ''_id'' of
        Some (JStr s) \<Rightarrow> if s \<noteq> [] then Inr (Some s) else Inl CastError
      | _ \<Rightarrow> Inl CastError)"

text \<open>
  The Boolean cast of \<^verbatim>\<open>completed\<close>: \<^verbatim>\<open>null\<close> passes through, booleans are kept, the
  strings and the numbers 1 and 0 that Mongoose converts are converted, every other
  value (any other string or number, an array, an object) is a CastError.
\<close>

fun castBoolean :: "json \<Rightarrow> error + bool option" where
  "castBoolean JNull = Inr None"
| "castBoolean (JBool b) = Inr (Some b)"
| "castBoolean (JStr s) =
     (if s = ''true'' \<or> s = ''1'' \<or> s = ''yes'' then Inr (Some True)
      else if s = ''false'' \<or> s = ''0'' \<or> s = ''no'' then Inr (Some False)
      else Inl CastError)"
| "castBoolean (JNum n) =
     (if n = ''1'' then Inr (Some True)
      else if n = ''0'' then Inr (Some False)
      else Inl CastError)"
| "castBoolean (JArr xs) = Inl CastError"
| "castBoolean (JObj members) = Inl CastError"

text \<open>\<^verbatim>\<open>required: true\<close> on a String path: a string of positive length.\<close>

definition checkRequired :: "string option \<Rightarrow> bool" where
  "checkRequired v = (case v of None \<Rightarrow> False | Some s \<Rightarrow> s \<noteq> [])"

text \<open>
  \<^verbatim>\<open>new Task({ title })\<close>: a fresh \<^verbatim>\<open>_id\<close>, the cast title, and the default of
  \<^verbatim>\<open>completed\<close>, since the constructor is given no other key. A title that cannot be
  cast leaves the path unset; the document then fails validation in \<^verbatim>\<open>save()\<close>, as
  an unset required path does.
\<close>

definition new_Task :: "object_id \<Rightarrow> json option \<Rightarrow> task" where
  "new_Task oid t =
     \<lparr>task_id = oid,
      title = (case castString t of Inr v \<Rightarrow> v | Inl e \<Rightarrow> None),
      completed = Some False\<rparr>"

text \<open>
  \<^verbatim>\<open>save()\<close> validates first, then inserts; the insert is refused for an \<^verbatim>\<open>_id\<close> already
  in the collection.
\<close>

definition save :: "bool \<Rightarrow> task \<Rightarrow> task list \<Rightarrow> error + task \<times> task list" where
  "save db_up doc tasks =
     (if \<not> checkRequired (title doc) then Inl ValidationError
      else if \<not> db_up then Inl MongoNetworkError
      else if task_id doc \<in> set (map task_id tasks) then Inl DuplicateKeyError
      else Inr (doc, tasks @ [doc]))"

text \<open>
  \<^verbatim>\<open>Task.find()\<close>: every document of the collection, here in the order of insertion.
\<close>

definition Task_find :: "bool \<Rightarrow> task list \<Rightarrow> error + task list" where
  "Task_find db_up tasks = (if db_up then Inr tasks else Inl MongoNetworkError)"

fun findById :: "object_id \<Rightarrow> task list \<Rightarrow> task option" where
  "findById oid [] = None"
| "findById oid (t # ts) = (if task_id t = oid then Some t else findById oid ts)"

fun updateOne :: "object_id \<Rightarrow> bool option \<Rightarrow> task list \<Rightarrow> task list" where
  "updateOne oid v [] = []"
| "updateOne oid v (t # ts) =
     (if task_id t = oid then t\<lparr>completed := v\<rparr> # ts else t # updateOne oid v ts)"

fun deleteOne :: "object_id \<Rightarrow> task list \<Rightarrow> task list" where
  "deleteOne oid [] = []"
| "deleteOne oid (t # ts) = (if task_id t = oid then ts else t # deleteOne oid ts)"

text \<open>
  \<^verbatim>\<open>findByIdAndUpdate(id, { completed }, { new: true })\<close>. The identifier and the
  update are cast before the database is reached. A key whose value is \<^verbatim>\<open>undefined\<close>
  is removed from the update, and with nothing left to set the
  call only finds the document. The match is on the unique \<^verbatim>\<open>_id\<close>: one document at most
  is changed. The result is the document after the update, or \<^verbatim>\<open>null\<close> when none matches.
\<close>

definition findByIdAndUpdate ::
  "bool \<Rightarrow> string \<Rightarrow> json option \<Rightarrow> task list \<Rightarrow> error + task option \<times> task list" where
  "findByIdAndUpdate db_up id_str upd tasks =
     (case castObjectId id_str of
        None \<Rightarrow> Inl CastError
      | Some oid \<Rightarrow>
          (case upd of
             None \<Rightarrow>
               if db_up then Inr (findById oid tasks, tasks) else Inl MongoNetworkError
           | Some v \<Rightarrow>
               (case castBoolean v of
                  Inl e \<Rightarrow> Inl e
                | Inr b \<Rightarrow>
                    if db_up
                    then Inr (findById oid (updateOne oid b tasks), updateOne oid b tasks)
                    else Inl MongoNetworkError)))"

text \<open>\<^verbatim>\<open>findByIdAndDelete(id)\<close>: the removed document, or \<^verbatim>\<open>null\<close> when none matches.\<close>

definition findByIdAndDelete ::
  "bool \<Rightarrow> string \<Rightarrow> task list \<Rightarrow> error + task option \<times> task list" where
  "findByIdAndDelete db_up id_str tasks =
     (case castObjectId id_str of
        None \<Rightarrow> Inl CastError
      | Some oid \<Rightarrow>
          if db_up then Inr (findById oid tasks, deleteOne oid tasks)
          else Inl MongoNetworkError)"

subsection \<open>The handlers\<close>

definition server_error :: response where
  "server_error = \<lparr>status = 500, body = JsonMessage ''Server Error''\<rparr>"

text \<open>\<^verbatim>\<open>res.json(doc)\<close> for a query result that may be \<^verbatim>\<open>null\<close>.\<close>

definition json_of :: "task option \<Rightarrow> res_body" where
  "json_of r = (case r of None \<Rightarrow> JsonNull | Some t \<Rightarrow> JsonTask t)"

text \<open>\<^verbatim>\<open>router.post('/tasks')\<close>\<close>

definition router_post ::
  "bool \<Rightarrow> object_id \<Rightarrow> req_body \<Rightarrow> task list \<Rightarrow> response \<times> task list" where
  "router_post db_up oid req_body tasks =
     (case save db_up (new_Task oid (req_body ''title'')) tasks of
        Inr (savedTask, tasks') \<Rightarrow> (\<lparr>status = 201, body = JsonTask savedTask\<rparr>, tasks')
      | Inl e \<Rightarrow> (server_error, tasks))"

text \<open>\<^verbatim>\<open>router.get('/tasks')\<close>\<close>

definition router_get :: "bool \<Rightarrow> task list \<Rightarrow> response \<times> task list" where
  "router_get db_up tasks =
     (case Task_find db_up tasks of
        Inr found \<Rightarrow> (\<lparr>status = 200, body = JsonTasks found\<rparr>, tasks)
      | Inl e \<Rightarrow> (server_error, tasks))"

text \<open>\<^verbatim>\<open>router.put('/tasks/:id')\<close>\<close>

definition router_put ::
  "bool \<Rightarrow> string \<Rightarrow> req_body \<Rightarrow> task list \<Rightarrow> response \<times> task list" where
  "router_put db_up id_str req_body tasks =
     (case findByIdAndUpdate db_up id_str (req_body ''completed'') tasks of
        Inr (updatedTask, tasks') \<Rightarrow> (\<lparr>status = 200, body = json_of updatedTask\<rparr>, tasks')
      | Inl e \<Rightarrow> (server_error, tasks))"

text \<open>\<^verbatim>\<open>router.delete('/tasks/:id')\<close>\<close>

definition router_delete :: "bool \<Rightarrow> string \<Rightarrow> task list \<Rightarrow> response \<times> task list" where
  "router_delete db_up id_str tasks =
     (case findByIdAndDelete db_up id_str tasks of
        Inr (deleted, tasks') \<Rightarrow> (\<lparr>status = 204, body = Empty\<rparr>, tasks')
      | Inl e \<Rightarrow> (server_error, tasks))"

subsection \<open>Requests in sequence\<close>

text \<open>
  A request to one of the four routes. The body is \<open>None\<close> when \<^verbatim>\<open>req.body\<close> is
  \<^verbatim>\<open>undefined\<close>: \<^verbatim>\<open>router.post\<close> and \<^verbatim>\<open>router.put\<close> destructure it before their
  \<^verbatim>\<open>try\<close>, so the handler throws there, sends no response of its own (\<open>None\<close>) and
  never reaches the database. \<^verbatim>\<open>router.get\<close> and \<^verbatim>\<open>router.delete\<close> do not read the body.
\<close>

datatype request =
    POST "req_body option"
  | GET
  | PUT string "req_body option"
  | DELETE string

fun handle ::
  "bool \<Rightarrow> object_id \<Rightarrow> request \<Rightarrow> task list \<Rightarrow> response option \<times> task list" where
  "handle db_up oid (POST None) tasks = (None, tasks)"
| "handle db_up oid (POST (Some req_body)) tasks =
     (Some (fst (router_post db_up oid req_body tasks)),
      snd (router_post db_up oid req_body tasks))"
| "handle db_up oid GET tasks =
     (Some (fst (router_get db_up tasks)), snd (router_get db_up tasks))"
| "handle db_up oid (PUT id_str None) tasks = (None, tasks)"
| "handle db_up oid (PUT id_str (Some req_body)) tasks =
     (Some (fst (router_put db_up id_str req_body tasks)),
      snd (router_put db_up id_str req_body tasks))"
| "handle db_up oid (DELETE id_str) tasks =
     (Some (fst (router_delete db_up id_str tasks)), snd (router_delete db_up id_str tasks))"

text \<open>
  The collection after a sequence of requests, each with its own availability of the
  database and its own generated ObjectId.
\<close>

fun run :: "(bool \<times> object_id \<times> request) list \<Rightarrow> task list \<Rightarrow> task list" where
  "run [] tasks = tasks"
| "run ((db_up, oid, r) # rs) tasks = run rs (snd (handle db_up oid r tasks))"


subsection \<open>Properties of a collection\<close>

text \<open>The unique index on \<^verbatim>\<open>_id\<close>.\<close>

definition unique_ids :: "task list \<Rightarrow> bool" where
  "unique_ids tasks = distinct (map task_id tasks)"


text \<open>An identifier string that matches no stored record: it casts to no stored \<^verbatim>\<open>_id\<close>.\<close>

definition no_match :: "string \<Rightarrow> task list \<Rightarrow> bool" where
  "no_match id_str tasks =
     (case castObjectId id_str of None \<Rightarrow> True | Some oid \<Rightarrow> findById oid tasks = None)"

section \<open>Identifiers: printing and casting\<close>

lemma hexDigitValue_hexDigit: "d < 16 \<Longrightarrow> hexDigitValue (hexDigit d) = Some d"
proof -
  assume "d < 16"
  then have "d = 0 \<or> d = 1 \<or> d = 2 \<or> d = 3 \<or> d = 4 \<or> d = 5 \<or> d = 6 \<or> d = 7
      \<or> d = 8 \<or> d = 9 \<or> d = 10 \<or> d = 11 \<or> d = 12 \<or> d = 13 \<or> d = 14 \<or> d = 15"
    by arith
  then show ?thesis
    by (elim disjE) (simp_all add: hexDigit_def hexDigitValue_def)
qed

lemma parseHex_append:
  "parseHex acc (xs @ ys) =
     (case parseHex acc xs of None \<Rightarrow> None | Some a \<Rightarrow> parseHex a ys)"
  by (induction xs arbitrary: acc) (auto split: option.splits)

lemma parseHex_hexDigits:
  "parseHex acc (hexDigits n v) = Some (acc * 16 ^ n + v mod 16 ^ n)"
proof (induction n arbitrary: v)
  case 0
  then show ?case by simp
next
  case (Suc n)
  have "v mod (16 * 16 ^ n) = 16 * (v div 16 mod 16 ^ n) + v mod 16"
    by (simp add: mod_mult2_eq)
  then show ?case
    by (simp add: parseHex_append Suc.IH hexDigitValue_hexDigit algebra_simps)
qed

lemma length_hexDigits: "length (hexDigits n v) = n"
  by (induction n arbitrary: v) auto

lemma castObjectId_toHexString: "castObjectId (toHexString oid) = Some oid"
proof -
  have "unat oid < 2 ^ 96"
    using unsigned_less [of oid] by simp
  then have "unat oid mod 16 ^ 24 = unat oid"
    by simp
  then show ?thesis
    by (simp add: castObjectId_def toHexString_def length_hexDigits parseHex_hexDigits)
qed

lemma hexDigits_numeral:
  "hexDigits (numeral k) v = hexDigits (pred_numeral k) (v div 16) @ [hexDigit (v mod 16)]"
proof -
  have "hexDigits (Suc (pred_numeral k)) v
          = hexDigits (pred_numeral k) (v div 16) @ [hexDigit (v mod 16)]"
    by (rule hexDigits.simps)
  then show ?thesis
    by (simp only: numeral_eq_Suc [of k, symmetric])
qed

lemma hexDigits_1: "hexDigits 1 v = [hexDigit (v mod 16)]"
  by simp

section \<open>The collection functions\<close>

lemma findById_None_iff: "findById oid ts = None \<longleftrightarrow> oid \<notin> task_id ` set ts"
  by (induction ts) auto

lemma findById_Some_id: "findById oid ts = Some t \<Longrightarrow> task_id t = oid \<and> t \<in> set ts"
  by (induction ts) (auto split: if_splits)

lemma map_task_id_updateOne: "map task_id (updateOne oid v ts) = map task_id ts"
  by (induction ts) simp_all

lemma map_title_updateOne: "map title (updateOne oid v ts) = map title ts"
  by (induction ts) auto

lemma updateOne_absent: "findById oid ts = None \<Longrightarrow> updateOne oid v ts = ts"
  by (induction ts) (auto split: if_splits)

lemma deleteOne_absent: "findById oid ts = None \<Longrightarrow> deleteOne oid ts = ts"
  by (induction ts) (auto split: if_splits)

lemma updateOne_idem: "updateOne oid v (updateOne oid v ts) = updateOne oid v ts"
  by (induction ts) auto

lemma updateOne_sets:
  "distinct (map task_id ts) \<Longrightarrow> t \<in> set (updateOne oid v ts) \<Longrightarrow> task_id t = oid
     \<Longrightarrow> completed t = v"
proof (induction ts)
  case Nil
  then show ?case by simp
next
  case (Cons a ts)
  show ?case
  proof (cases "task_id a = oid")
    case True
    with Cons.prems have "t = a\<lparr>completed := v\<rparr> \<or> t \<in> set ts" by simp
    moreover from True Cons.prems have "oid \<notin> task_id ` set ts" by simp
    ultimately have "t = a\<lparr>completed := v\<rparr>" using Cons.prems(3) by blast
    then show ?thesis by simp
  next
    case False
    with Cons.prems have "t \<in> set (updateOne oid v ts)" by auto
    with Cons show ?thesis by simp
  qed
qed


lemma set_deleteOne: "set (deleteOne oid ts) \<subseteq> set ts"
  by (induction ts) auto

lemma deleteOne_removes:
  "distinct (map task_id ts) \<Longrightarrow> oid \<notin> task_id ` set (deleteOne oid ts)"
proof (induction ts)
  case Nil
  then show ?case by simp
next
  case (Cons a ts)
  show ?case
  proof (cases "task_id a = oid")
    case True
    with Cons.prems show ?thesis by simp
  next
    case False
    with Cons show ?thesis by simp
  qed
qed

lemma deleteOne_snoc:
  "oid \<notin> task_id ` set ts \<Longrightarrow> task_id t = oid \<Longrightarrow> deleteOne oid (ts @ [t]) = ts"
  by (induction ts) auto

lemma updateOne_snoc:
  "oid \<notin> task_id ` set ts \<Longrightarrow> task_id t = oid
     \<Longrightarrow> updateOne oid v (ts @ [t]) = ts @ [t\<lparr>completed := v\<rparr>]"
  by (induction ts) auto

lemma findById_snoc:
  "oid \<notin> task_id ` set ts \<Longrightarrow> task_id t = oid \<Longrightarrow> findById oid (ts @ [t]) = Some t"
  by (induction ts) auto

lemma distinct_deleteOne:
  "distinct (map task_id ts) \<Longrightarrow> distinct (map task_id (deleteOne oid ts))"
  by (induction ts) (use set_deleteOne in \<open>auto split: if_splits\<close>)

section \<open>Create, List, Update, Delete\<close>

text \<open>
  In the statements below, Create of a title \<open>t\<close> is a POST whose body has
  \<open>title \<mapsto> JStr t\<close>, Update of \<open>c\<close> is a PUT whose body has \<open>completed \<mapsto> JBool c\<close>,
  and an operation that is said to be performed reaches the database (\<open>db_up\<close> is
  \<open>True\<close>); the generated ObjectId of a Create is one the collection does not hold.
\<close>

text \<open>
  C1. For a non-empty title and any collection, Create followed by List returns the
  prior collection and exactly one more task, which has the given title and
  \<open>completed = false\<close>.
\<close>

theorem create_then_list:
  assumes "t \<noteq> ''''"
    and "req_body ''title'' = Some (JStr t)"
    and "oid \<notin> task_id ` set tasks"
  shows "fst (router_get True (snd (router_post True oid req_body tasks)))
           = \<lparr>status = 200,
              body = JsonTasks (tasks @ [\<lparr>task_id = oid, title = Some t, completed = Some False\<rparr>])\<rparr>"
  using assms
  by (simp add: router_post_def save_def new_Task_def checkRequired_def
      router_get_def Task_find_def)

theorem create_then_list_witness:
  "''Buy milk'' \<noteq> ''''
   \<and> [''title'' \<mapsto> JStr ''Buy milk''] ''title'' = Some (JStr ''Buy milk'')
   \<and> (0x507f1f77bcf86cd799439011 :: object_id)
        \<notin> task_id ` set [\<lparr>task_id = 0x507f191e810c19729de860ea, title = Some ''Walk dog'',
                            completed = Some True\<rparr>]
   \<and> fst (router_get True (snd (router_post True 0x507f1f77bcf86cd799439011
              [''title'' \<mapsto> JStr ''Buy milk'']
              [\<lparr>task_id = 0x507f191e810c19729de860ea, title = Some ''Walk dog'',
                completed = Some True\<rparr>])))
       = \<lparr>status = 200,
          body = JsonTasks
            [\<lparr>task_id = 0x507f191e810c19729de860ea, title = Some ''Walk dog'',
              completed = Some True\<rparr>,
             \<lparr>task_id = 0x507f1f77bcf86cd799439011, title = Some ''Buy milk'',
              completed = Some False\<rparr>]\<rparr>"
  using create_then_list [of "''Buy milk''" "[''title'' \<mapsto> JStr ''Buy milk'']"
      "0x507f1f77bcf86cd799439011"
      "[\<lparr>task_id = 0x507f191e810c19729de860ea, title = Some ''Walk dog'',
         completed = Some True\<rparr>]"]
  by simp

text \<open>
  C4. For a collection with unique identifiers and the identifier of a stored task,
  Update of \<open>c\<close> followed by List returns a collection with the same identifiers in
  which the task with that identifier is present and has \<open>completed = c\<close>, for \<open>c\<close>
  true and for \<open>c\<close> false.
\<close>

theorem update_then_list:
  assumes "unique_ids tasks"
    and "castObjectId id_str = Some oid"
    and "oid \<in> task_id ` set tasks"
    and "req_body ''completed'' = Some (JBool c)"
  shows "\<exists>ts. fst (router_get True (snd (router_put True id_str req_body tasks)))
                = \<lparr>status = 200, body = JsonTasks ts\<rparr>
            \<and> map task_id ts = map task_id tasks
            \<and> (\<exists>t \<in> set ts. task_id t = oid)
            \<and> (\<forall>t \<in> set ts. task_id t = oid \<longrightarrow> completed t = Some c)"
proof -
  let ?ts = "updateOne oid (Some c) tasks"
  have run: "fst (router_get True (snd (router_put True id_str req_body tasks)))
               = \<lparr>status = 200, body = JsonTasks ?ts\<rparr>"
    using assms(2,4)
    by (simp add: router_put_def findByIdAndUpdate_def router_get_def Task_find_def)
  have ids: "map task_id ?ts = map task_id tasks"
    by (rule map_task_id_updateOne)
  have "task_id ` set ?ts = task_id ` set tasks"
    using ids by (metis set_map)
  with assms(3) have "oid \<in> task_id ` set ?ts"
    by simp
  then have ex: "\<exists>t \<in> set ?ts. task_id t = oid"
    by blast
  have all: "\<forall>t \<in> set ?ts. task_id t = oid \<longrightarrow> completed t = Some c"
    using assms(1) updateOne_sets [of tasks _ oid "Some c"]
    by (auto simp: unique_ids_def)
  from run ids ex all show ?thesis
    by blast
qed

theorem update_then_list_witness:
  "unique_ids [\<lparr>task_id = 0x507f1f77bcf86cd799439011, title = Some ''Buy milk'',
                 completed = Some False\<rparr>]
   \<and> castObjectId ''507f1f77bcf86cd799439011'' = Some 0x507f1f77bcf86cd799439011
   \<and> (0x507f1f77bcf86cd799439011 :: object_id)
        \<in> task_id ` set [\<lparr>task_id = 0x507f1f77bcf86cd799439011, title = Some ''Buy milk'',
                 completed = Some False\<rparr>]
   \<and> [''completed'' \<mapsto> JBool True] ''completed'' = Some (JBool True)
   \<and> (\<exists>ts. fst (router_get True (snd (router_put True ''507f1f77bcf86cd799439011''
                    [''completed'' \<mapsto> JBool True]
                    [\<lparr>task_id = 0x507f1f77bcf86cd799439011, title = Some ''Buy milk'',
                      completed = Some False\<rparr>])))
                = \<lparr>status = 200, body = JsonTasks ts\<rparr>
            \<and> map task_id ts
                = map task_id [\<lparr>task_id = 0x507f1f77bcf86cd799439011,
                    title = Some ''Buy milk'', completed = Some False\<rparr>]
            \<and> (\<exists>t \<in> set ts. task_id t = 0x507f1f77bcf86cd799439011)
            \<and> (\<forall>t \<in> set ts. task_id t = 0x507f1f77bcf86cd799439011
                   \<longrightarrow> completed t = Some True))
   \<and> fst (router_get True (snd (router_put True ''507f1f77bcf86cd799439011''
              [''completed'' \<mapsto> JBool True]
              [\<lparr>task_id = 0x507f1f77bcf86cd799439011, title = Some ''Buy milk'',
                completed = Some False\<rparr>])))
       = \<lparr>status = 200,
          body = JsonTasks [\<lparr>task_id = 0x507f1f77bcf86cd799439011, title = Some ''Buy milk'',
                             completed = Some True\<rparr>]\<rparr>"
proof -
  have u: "unique_ids [\<lparr>task_id = 0x507f1f77bcf86cd799439011, title = Some ''Buy milk'',
                 completed = Some False\<rparr>]"
    by (simp add: unique_ids_def)
  have c: "castObjectId ''507f1f77bcf86cd799439011'' = Some 0x507f1f77bcf86cd799439011"
    by (simp add: castObjectId_def hexDigitValue_def)
  have m: "(0x507f1f77bcf86cd799439011 :: object_id)
        \<in> task_id ` set [\<lparr>task_id = 0x507f1f77bcf86cd799439011, title = Some ''Buy milk'',
                 completed = Some False\<rparr>]"
    by simp
  have b: "[''completed'' \<mapsto> JBool True] ''completed'' = Some (JBool True)"
    by simp
  have r: "fst (router_get True (snd (router_put True ''507f1f77bcf86cd799439011''
              [''completed'' \<mapsto> JBool True]
              [\<lparr>task_id = 0x507f1f77bcf86cd799439011, title = Some ''Buy milk'',
                completed = Some False\<rparr>])))
       = \<lparr>status = 200,
          body = JsonTasks [\<lparr>task_id = 0x507f1f77bcf86cd799439011, title = Some ''Buy milk'',
                             completed = Some True\<rparr>]\<rparr>"
    by (simp add: router_put_def findByIdAndUpdate_def c router_get_def Task_find_def)
  from u c m b
    update_then_list [where req_body = "[''completed'' \<mapsto> JBool True]" and c = True,
      OF u c m b]
    r
  show ?thesis
    by (intro conjI)
qed

text \<open>
  C5. For a collection with unique identifiers and any identifier string, Delete
  followed by List returns a collection in which no task has that identifier: none
  whose \<^verbatim>\<open>_id\<close> the string casts to, and none whose printed \<^verbatim>\<open>_id\<close> is the string.
\<close>

theorem delete_then_list:
  assumes "unique_ids tasks"
  shows "\<exists>ts. fst (router_get True (snd (router_delete True id_str tasks)))
                = \<lparr>status = 200, body = JsonTasks ts\<rparr>
            \<and> (\<forall>t \<in> set ts. castObjectId id_str \<noteq> Some (task_id t))
            \<and> (\<forall>t \<in> set ts. toHexString (task_id t) \<noteq> id_str)"
proof (cases "castObjectId id_str")
  case None
  then have run: "fst (router_get True (snd (router_delete True id_str tasks)))
                    = \<lparr>status = 200, body = JsonTasks tasks\<rparr>"
    by (simp add: router_delete_def findByIdAndDelete_def router_get_def Task_find_def)
  have a: "\<forall>t \<in> set tasks. castObjectId id_str \<noteq> Some (task_id t)"
    using None by simp
  have b: "\<forall>t \<in> set tasks. toHexString (task_id t) \<noteq> id_str"
    using None castObjectId_toHexString by force
  from run a b show ?thesis by blast
next
  case (Some oid)
  let ?ts = "deleteOne oid tasks"
  have run: "fst (router_get True (snd (router_delete True id_str tasks)))
               = \<lparr>status = 200, body = JsonTasks ?ts\<rparr>"
    using Some
    by (simp add: router_delete_def findByIdAndDelete_def router_get_def Task_find_def)
  have gone: "oid \<notin> task_id ` set ?ts"
    using assms by (simp add: unique_ids_def deleteOne_removes)
  then have a: "\<forall>t \<in> set ?ts. castObjectId id_str \<noteq> Some (task_id t)"
    using Some by auto
  have b: "\<forall>t \<in> set ?ts. toHexString (task_id t) \<noteq> id_str"
  proof
    fix t assume "t \<in> set ?ts"
    with gone have "task_id t \<noteq> oid" by auto
    then show "toHexString (task_id t) \<noteq> id_str"
      using Some castObjectId_toHexString [of "task_id t"] by auto
  qed
  from run a b show ?thesis by blast
qed

theorem delete_then_list_witness:
  "unique_ids [\<lparr>task_id = 0x507f1f77bcf86cd799439011, title = Some ''Buy milk'',
                 completed = Some False\<rparr>,
               \<lparr>task_id = 0x507f191e810c19729de860ea, title = Some ''Walk dog'',
                 completed = Some True\<rparr>]
   \<and> (\<exists>ts. fst (router_get True (snd (router_delete True ''507f1f77bcf86cd799439011''
                  [\<lparr>task_id = 0x507f1f77bcf86cd799439011, title = Some ''Buy milk'',
                     completed = Some False\<rparr>,
                   \<lparr>task_id = 0x507f191e810c19729de860ea, title = Some ''Walk dog'',
                     completed = Some True\<rparr>])))
                = \<lparr>status = 200, body = JsonTasks ts\<rparr>
            \<and> (\<forall>t \<in> set ts. castObjectId ''507f1f77bcf86cd799439011'' \<noteq> Some (task_id t))
            \<and> (\<forall>t \<in> set ts. toHexString (task_id t) \<noteq> ''507f1f77bcf86cd799439011''))
   \<and> fst (router_get True (snd (router_delete True ''507f1f77bcf86cd799439011''
              [\<lparr>task_id = 0x507f1f77bcf86cd799439011, title = Some ''Buy milk'',
                 completed = Some False\<rparr>,
               \<lparr>task_id = 0x507f191e810c19729de860ea, title = Some ''Walk dog'',
                 completed = Some True\<rparr>])))
       = \<lparr>status = 200,
          body = JsonTasks [\<lparr>task_id = 0x507f191e810c19729de860ea, title = Some ''Walk dog'',
                             completed = Some True\<rparr>]\<rparr>"
proof -
  have u: "unique_ids [\<lparr>task_id = 0x507f1f77bcf86cd799439011, title = Some ''Buy milk'',
                 completed = Some False\<rparr>,
               \<lparr>task_id = 0x507f191e810c19729de860ea, title = Some ''Walk dog'',
                 completed = Some True\<rparr>]"
    by (simp add: unique_ids_def)
  have c: "castObjectId ''507f1f77bcf86cd799439011'' = Some 0x507f1f77bcf86cd799439011"
    by (simp add: castObjectId_def hexDigitValue_def)
  have r: "fst (router_get True (snd (router_delete True ''507f1f77bcf86cd799439011''
              [\<lparr>task_id = 0x507f1f77bcf86cd799439011, title = Some ''Buy milk'',
                 completed = Some False\<rparr>,
               \<lparr>task_id = 0x507f191e810c19729de860ea, title = Some ''Walk dog'',
                 completed = Some True\<rparr>])))
       = \<lparr>status = 200,
          body = JsonTasks [\<lparr>task_id = 0x507f191e810c19729de860ea, title = Some ''Walk dog'',
                             completed = Some True\<rparr>]\<rparr>"
    by (simp add: router_delete_def findByIdAndDelete_def c router_get_def Task_find_def)
  from u delete_then_list [OF u, of "''507f1f77bcf86cd799439011''"] r
  show ?thesis
    by (intro conjI)
qed

text \<open>
  C6. For any collection and any identifier, Update of \<open>true\<close> applied twice leaves
  the collection as Update of \<open>true\<close> applied once does.
\<close>

theorem update_twice:
  "snd (router_put db_up id_str [''completed'' \<mapsto> JBool True]
          (snd (router_put db_up id_str [''completed'' \<mapsto> JBool True] tasks)))
     = snd (router_put db_up id_str [''completed'' \<mapsto> JBool True] tasks)"
proof (cases "castObjectId id_str")
  case None
  then show ?thesis
    by (simp add: router_put_def findByIdAndUpdate_def)
next
  case (Some oid)
  then show ?thesis
    by (cases db_up) (simp_all add: router_put_def findByIdAndUpdate_def updateOne_idem)
qed

theorem update_twice_witness:
  "snd (router_put True ''507f1f77bcf86cd799439011'' [''completed'' \<mapsto> JBool True]
          (snd (router_put True ''507f1f77bcf86cd799439011'' [''completed'' \<mapsto> JBool True]
             [\<lparr>task_id = 0x507f1f77bcf86cd799439011, title = Some ''Buy milk'',
               completed = Some False\<rparr>])))
     = [\<lparr>task_id = 0x507f1f77bcf86cd799439011, title = Some ''Buy milk'',
         completed = Some True\<rparr>]"
proof -
  have c: "castObjectId ''507f1f77bcf86cd799439011'' = Some 0x507f1f77bcf86cd799439011"
    by (simp add: castObjectId_def hexDigitValue_def)
  have "snd (router_put True ''507f1f77bcf86cd799439011'' [''completed'' \<mapsto> JBool True]
             [\<lparr>task_id = 0x507f1f77bcf86cd799439011, title = Some ''Buy milk'',
               completed = Some False\<rparr>])
     = [\<lparr>task_id = 0x507f1f77bcf86cd799439011, title = Some ''Buy milk'',
         completed = Some True\<rparr>]"
    by (simp add: router_put_def findByIdAndUpdate_def c)
  then show ?thesis
    using update_twice [of True "''507f1f77bcf86cd799439011''"
        "[\<lparr>task_id = 0x507f1f77bcf86cd799439011, title = Some ''Buy milk'',
               completed = Some False\<rparr>]"]
    by simp
qed

text \<open>
  C7. An Update leaves the identifier and the title of every stored task as they
  were, whatever the request; and it reads nothing of the request body but
  \<^verbatim>\<open>completed\<close>: two bodies that agree on that key give the same response and the same
  collection, so a \<^verbatim>\<open>title\<close> in the body changes nothing.
\<close>

theorem update_frame:
  "map task_id (snd (router_put db_up id_str req_body tasks)) = map task_id tasks
   \<and> map title (snd (router_put db_up id_str req_body tasks)) = map title tasks
   \<and> (req_body' ''completed'' = req_body ''completed''
        \<longrightarrow> router_put db_up id_str req_body' tasks = router_put db_up id_str req_body tasks)"
  by (simp add: router_put_def findByIdAndUpdate_def map_task_id_updateOne
      map_title_updateOne split: option.splits sum.splits)

theorem update_frame_witness:
  "map task_id (snd (router_put True ''507f1f77bcf86cd799439011''
       [''completed'' \<mapsto> JBool True, ''title'' \<mapsto> JStr ''Changed'']
       [\<lparr>task_id = 0x507f1f77bcf86cd799439011, title = Some ''Buy milk'',
         completed = Some False\<rparr>])) = [0x507f1f77bcf86cd799439011]
   \<and> map title (snd (router_put True ''507f1f77bcf86cd799439011''
       [''completed'' \<mapsto> JBool True, ''title'' \<mapsto> JStr ''Changed'']
       [\<lparr>task_id = 0x507f1f77bcf86cd799439011, title = Some ''Buy milk'',
         completed = Some False\<rparr>])) = [Some ''Buy milk'']
   \<and> router_put True ''507f1f77bcf86cd799439011'' [''completed'' \<mapsto> JBool True]
       [\<lparr>task_id = 0x507f1f77bcf86cd799439011, title = Some ''Buy milk'',
         completed = Some False\<rparr>]
     = router_put True ''507f1f77bcf86cd799439011''
       [''completed'' \<mapsto> JBool True, ''title'' \<mapsto> JStr ''Changed'']
       [\<lparr>task_id = 0x507f1f77bcf86cd799439011, title = Some ''Buy milk'',
         completed = Some False\<rparr>]"
  using update_frame [of True "''507f1f77bcf86cd799439011''"
      "[''completed'' \<mapsto> JBool True, ''title'' \<mapsto> JStr ''Changed'']"
      "[\<lparr>task_id = 0x507f1f77bcf86cd799439011, title = Some ''Buy milk'',
         completed = Some False\<rparr>]"
      "[''completed'' \<mapsto> JBool True]"]
  by simp

text \<open>
  C8. A POST whose body has a non-empty title \<open>t\<close> is answered 201 with the stored task
  as body: its identifier is the generated one, which the collection did not hold
  before, its title is \<open>t\<close> and \<open>completed\<close> is false. That identifier, as printed in
  the response, can be used at once as the route parameter: Update answers 200 with
  the task updated, and Delete answers 204 and removes it.
\<close>

theorem create_response:
  assumes "t \<noteq> ''''"
    and "req_body ''title'' = Some (JStr t)"
    and "oid \<notin> task_id ` set tasks"
  shows "router_post True oid req_body tasks
           = (\<lparr>status = 201,
               body = JsonTask \<lparr>task_id = oid, title = Some t, completed = Some False\<rparr>\<rparr>,
              tasks @ [\<lparr>task_id = oid, title = Some t, completed = Some False\<rparr>])
       \<and> router_put True (toHexString oid) [''completed'' \<mapsto> JBool c]
             (snd (router_post True oid req_body tasks))
           = (\<lparr>status = 200,
               body = JsonTask \<lparr>task_id = oid, title = Some t, completed = Some c\<rparr>\<rparr>,
              tasks @ [\<lparr>task_id = oid, title = Some t, completed = Some c\<rparr>])
       \<and> router_delete True (toHexString oid) (snd (router_post True oid req_body tasks))
           = (\<lparr>status = 204, body = Empty\<rparr>, tasks)"
proof -
  let ?nt = "\<lparr>task_id = oid, title = Some t, completed = Some False\<rparr>"
  have post: "router_post True oid req_body tasks
                = (\<lparr>status = 201, body = JsonTask ?nt\<rparr>, tasks @ [?nt])"
    using assms
    by (simp add: router_post_def save_def new_Task_def checkRequired_def)
  let ?ut = "\<lparr>task_id = oid, title = Some t, completed = Some c\<rparr>"
  have upd: "updateOne oid (Some c) (tasks @ [?nt]) = tasks @ [?ut]"
    using assms(3) by (simp add: updateOne_snoc)
  have fnd: "findById oid (tasks @ [?ut]) = Some ?ut"
    using assms(3) by (simp add: findById_snoc)
  have put: "router_put True (toHexString oid) [''completed'' \<mapsto> JBool c] (tasks @ [?nt])
               = (\<lparr>status = 200, body = JsonTask ?ut\<rparr>, tasks @ [?ut])"
    by (simp add: router_put_def findByIdAndUpdate_def castObjectId_toHexString
        upd fnd json_of_def del: updateOne.simps findById.simps)
  have del: "deleteOne oid (tasks @ [?nt]) = tasks"
    using assms(3) by (simp add: deleteOne_snoc)
  have delete: "router_delete True (toHexString oid) (tasks @ [?nt])
                  = (\<lparr>status = 204, body = Empty\<rparr>, tasks)"
    by (simp add: router_delete_def findByIdAndDelete_def castObjectId_toHexString del)
  from post put delete show ?thesis
    by simp
qed

theorem create_response_witness:
  "''Buy milk'' \<noteq> ''''
   \<and> [''title'' \<mapsto> JStr ''Buy milk''] ''title'' = Some (JStr ''Buy milk'')
   \<and> (0x507f1f77bcf86cd799439011 :: object_id) \<notin> task_id ` set []
   \<and> router_post True 0x507f1f77bcf86cd799439011 [''title'' \<mapsto> JStr ''Buy milk''] []
        = (\<lparr>status = 201,
            body = JsonTask \<lparr>task_id = 0x507f1f77bcf86cd799439011, title = Some ''Buy milk'',
                     completed = Some False\<rparr>\<rparr>,
           [\<lparr>task_id = 0x507f1f77bcf86cd799439011, title = Some ''Buy milk'',
             completed = Some False\<rparr>])
   \<and> toHexString 0x507f1f77bcf86cd799439011 = ''507f1f77bcf86cd799439011''
   \<and> router_put True ''507f1f77bcf86cd799439011'' [''completed'' \<mapsto> JBool True]
        [\<lparr>task_id = 0x507f1f77bcf86cd799439011, title = Some ''Buy milk'',
          completed = Some False\<rparr>]
        = (\<lparr>status = 200,
            body = JsonTask \<lparr>task_id = 0x507f1f77bcf86cd799439011, title = Some ''Buy milk'',
                     completed = Some True\<rparr>\<rparr>,
           [\<lparr>task_id = 0x507f1f77bcf86cd799439011, title = Some ''Buy milk'',
             completed = Some True\<rparr>])
   \<and> router_delete True ''507f1f77bcf86cd799439011''
        [\<lparr>task_id = 0x507f1f77bcf86cd799439011, title = Some ''Buy milk'',
          completed = Some False\<rparr>]
        = (\<lparr>status = 204, body = Empty\<rparr>, [])"
proof -
  have h: "toHexString 0x507f1f77bcf86cd799439011 = ''507f1f77bcf86cd799439011''"
    by (simp add: toHexString_def hexDigit_def hexDigits_numeral)
  have a: "''Buy milk'' \<noteq> ''''" by simp
  have b: "[''title'' \<mapsto> JStr ''Buy milk''] ''title'' = Some (JStr ''Buy milk'')" by simp
  have f: "(0x507f1f77bcf86cd799439011 :: object_id) \<notin> task_id ` set []" by simp
  note r = create_response [where req_body = "[''title'' \<mapsto> JStr ''Buy milk'']"
      and c = True, OF a b f]
  from r have p: "router_post True 0x507f1f77bcf86cd799439011
        [''title'' \<mapsto> JStr ''Buy milk''] []
        = (\<lparr>status = 201,
            body = JsonTask \<lparr>task_id = 0x507f1f77bcf86cd799439011, title = Some ''Buy milk'',
                     completed = Some False\<rparr>\<rparr>,
           [\<lparr>task_id = 0x507f1f77bcf86cd799439011, title = Some ''Buy milk'',
             completed = Some False\<rparr>])"
    by simp
  from r show ?thesis
    unfolding p h by simp
qed

section \<open>Casting and the invariant\<close>

lemma castBoolean_Inl: "castBoolean v = Inl e \<Longrightarrow> e = CastError"
  by (cases v) (simp_all split: if_splits)









section \<open>The unique index is kept\<close>

lemma unique_ids_empty: "unique_ids []"
  by (simp add: unique_ids_def)

lemma unique_ids_post:
  "unique_ids tasks \<Longrightarrow> unique_ids (snd (router_post db_up oid req_body tasks))"
  by (simp add: router_post_def save_def new_Task_def unique_ids_def)

text \<open>A Create that is answered 201 stored an identifier the collection did not hold.\<close>

lemma created_id_is_fresh:
  assumes "status (fst (router_post db_up oid req_body tasks)) = 201"
  shows "oid \<notin> task_id ` set tasks"
proof (rule ccontr)
  assume "\<not> oid \<notin> task_id ` set tasks"
  then have "router_post db_up oid req_body tasks = (server_error, tasks)"
    by (simp add: router_post_def save_def new_Task_def)
  with assms show False
    by (simp add: server_error_def)
qed

lemma unique_ids_get: "unique_ids tasks \<Longrightarrow> unique_ids (snd (router_get db_up tasks))"
  by (simp add: router_get_def Task_find_def)

lemma router_put_ids:
  "map task_id (snd (router_put db_up id_str req_body tasks)) = map task_id tasks"
  by (simp add: router_put_def findByIdAndUpdate_def map_task_id_updateOne
      split: option.splits sum.splits)

lemma unique_ids_put:
  "unique_ids tasks \<Longrightarrow> unique_ids (snd (router_put db_up id_str req_body tasks))"
  by (simp add: unique_ids_def router_put_ids)

lemma unique_ids_delete:
  "unique_ids tasks \<Longrightarrow> unique_ids (snd (router_delete db_up id_str tasks))"
  by (simp add: router_delete_def findByIdAndDelete_def unique_ids_def distinct_deleteOne
        split: option.splits)

section \<open>The invariant of the data model\<close>




section \<open>Identifiers that match no stored record\<close>

text \<open>
  C2, as the claim states it, fails: for a well-formed identifier that matches no stored
  record, Update is answered 200 with a \<^verbatim>\<open>null\<close> body, which is not the generic server
  error that a failure of the store gives.
\<close>

theorem update_missing_not_server_error:
  "no_match ''507f191e810c19729de860ea''
     [\<lparr>task_id = 0x507f1f77bcf86cd799439011, title = Some ''Buy milk'',
       completed = Some False\<rparr>]
   \<and> fst (router_put True ''507f191e810c19729de860ea'' [''completed'' \<mapsto> JBool True]
        [\<lparr>task_id = 0x507f1f77bcf86cd799439011, title = Some ''Buy milk'',
          completed = Some False\<rparr>])
       = \<lparr>status = 200, body = JsonNull\<rparr>
   \<and> fst (router_put False ''507f191e810c19729de860ea'' [''completed'' \<mapsto> JBool True]
        [\<lparr>task_id = 0x507f1f77bcf86cd799439011, title = Some ''Buy milk'',
          completed = Some False\<rparr>])
       = server_error
   \<and> fst (router_put True ''507f191e810c19729de860ea'' [''completed'' \<mapsto> JBool True]
        [\<lparr>task_id = 0x507f1f77bcf86cd799439011, title = Some ''Buy milk'',
          completed = Some False\<rparr>])
       \<noteq> server_error"
proof -
  have c: "castObjectId ''507f191e810c19729de860ea'' = Some 0x507f191e810c19729de860ea"
    by (simp add: castObjectId_def hexDigitValue_def)
  show ?thesis
    by (simp add: no_match_def router_put_def findByIdAndUpdate_def c json_of_def
        server_error_def)
qed

text \<open>
  C2, amended. For an identifier that matches no stored record, Update of a boolean is
  answered with the generic server error exactly when the identifier is malformed or
  the store cannot be reached; for a well-formed identifier and a reachable store it
  is answered 200 with a \<^verbatim>\<open>null\<close> body. In every case the collection is left as it was.
\<close>

theorem update_missing_response:
  assumes "no_match id_str tasks"
    and "req_body ''completed'' = Some (JBool c)"
  shows "router_put db_up id_str req_body tasks
           = (if castObjectId id_str = None \<or> \<not> db_up then server_error
              else \<lparr>status = 200, body = JsonNull\<rparr>,
              tasks)"
proof (cases "castObjectId id_str")
  case None
  then show ?thesis
    by (simp add: router_put_def findByIdAndUpdate_def)
next
  case (Some oid)
  with assms(1) have nf: "findById oid tasks = None"
    by (simp add: no_match_def)
  then have "updateOne oid (Some c) tasks = tasks"
    by (rule updateOne_absent)
  with Some nf assms(2) show ?thesis
    by (simp add: router_put_def findByIdAndUpdate_def json_of_def)
qed

theorem update_missing_response_witness:
  "no_match ''not-an-object-id''
     [\<lparr>task_id = 0x507f1f77bcf86cd799439011, title = Some ''Buy milk'',
       completed = Some False\<rparr>]
   \<and> [''completed'' \<mapsto> JBool True] ''completed'' = Some (JBool True)
   \<and> castObjectId ''not-an-object-id'' = None
   \<and> router_put True ''not-an-object-id'' [''completed'' \<mapsto> JBool True]
        [\<lparr>task_id = 0x507f1f77bcf86cd799439011, title = Some ''Buy milk'',
          completed = Some False\<rparr>]
       = (server_error,
          [\<lparr>task_id = 0x507f1f77bcf86cd799439011, title = Some ''Buy milk'',
            completed = Some False\<rparr>])"
proof -
  have c: "castObjectId ''not-an-object-id'' = None"
    by (simp add: castObjectId_def)
  have n: "no_match ''not-an-object-id''
     [\<lparr>task_id = 0x507f1f77bcf86cd799439011, title = Some ''Buy milk'',
       completed = Some False\<rparr>]"
    by (simp add: no_match_def c)
  have b: "[''completed'' \<mapsto> JBool True] ''completed'' = Some (JBool True)"
    by simp
  from update_missing_response [where req_body = "[''completed'' \<mapsto> JBool True]"
      and c = True and db_up = True, OF n b] n b c
  show ?thesis
    by simp
qed

text \<open>
  C3, as the claim states it, fails: for a well-formed identifier that matches no stored
  record, Delete is answered 204, not the generic server error.
\<close>

theorem delete_missing_not_server_error:
  "no_match ''507f191e810c19729de860ea''
     [\<lparr>task_id = 0x507f1f77bcf86cd799439011, title = Some ''Buy milk'',
       completed = Some False\<rparr>]
   \<and> fst (router_delete True ''507f191e810c19729de860ea''
        [\<lparr>task_id = 0x507f1f77bcf86cd799439011, title = Some ''Buy milk'',
          completed = Some False\<rparr>])
       = \<lparr>status = 204, body = Empty\<rparr>
   \<and> fst (router_delete True ''507f191e810c19729de860ea''
        [\<lparr>task_id = 0x507f1f77bcf86cd799439011, title = Some ''Buy milk'',
          completed = Some False\<rparr>])
       \<noteq> server_error"
proof -
  have c: "castObjectId ''507f191e810c19729de860ea'' = Some 0x507f191e810c19729de860ea"
    by (simp add: castObjectId_def hexDigitValue_def)
  show ?thesis
    by (simp add: no_match_def router_delete_def findByIdAndDelete_def c server_error_def)
qed

text \<open>
  C3, amended. For an identifier that matches no stored record, Delete always answers
  and leaves the collection as it was: with the generic server error exactly when the
  identifier is malformed or the store cannot be reached, and with 204 for a
  well-formed identifier and a reachable store.
\<close>

theorem delete_missing_response:
  assumes "no_match id_str tasks"
  shows "router_delete db_up id_str tasks
           = (if castObjectId id_str = None \<or> \<not> db_up then server_error
              else \<lparr>status = 204, body = Empty\<rparr>,
              tasks)"
proof (cases "castObjectId id_str")
  case None
  then show ?thesis
    by (simp add: router_delete_def findByIdAndDelete_def)
next
  case (Some oid)
  with assms have nf: "findById oid tasks = None"
    by (simp add: no_match_def)
  then have "deleteOne oid tasks = tasks"
    by (rule deleteOne_absent)
  with Some show ?thesis
    by (simp add: router_delete_def findByIdAndDelete_def)
qed

theorem delete_missing_response_witness:
  "no_match ''not-an-object-id''
     [\<lparr>task_id = 0x507f1f77bcf86cd799439011, title = Some ''Buy milk'',
       completed = Some False\<rparr>]
   \<and> castObjectId ''not-an-object-id'' = None
   \<and> router_delete True ''not-an-object-id''
        [\<lparr>task_id = 0x507f1f77bcf86cd799439011, title = Some ''Buy milk'',
          completed = Some False\<rparr>]
       = (server_error,
          [\<lparr>task_id = 0x507f1f77bcf86cd799439011, title = Some ''Buy milk'',
            completed = Some False\<rparr>])"
proof -
  have c: "castObjectId ''not-an-object-id'' = None"
    by (simp add: castObjectId_def)
  have n: "no_match ''not-an-object-id''
     [\<lparr>task_id = 0x507f1f77bcf86cd799439011, title = Some ''Buy milk'',
       completed = Some False\<rparr>]"
    by (simp add: no_match_def c)
  from delete_missing_response [where db_up = True, OF n] n c
  show ?thesis
    by simp
qed

text \<open>
  C10. For a well-formed identifier that matches no stored record, Update is answered
  200 with a \<^verbatim>\<open>null\<close> body and Delete is answered 204, and each leaves the collection
  as it was. The Update may carry any body whose \<^verbatim>\<open>completed\<close> is absent or can be
  cast, in particular a boolean.
\<close>

theorem missing_id_responses:
  assumes "castObjectId id_str = Some oid"
    and "oid \<notin> task_id ` set tasks"
    and "\<forall>v. req_body ''completed'' = Some v \<longrightarrow> castBoolean v \<noteq> Inl CastError"
  shows "router_put True id_str req_body tasks = (\<lparr>status = 200, body = JsonNull\<rparr>, tasks)
       \<and> router_delete True id_str tasks = (\<lparr>status = 204, body = Empty\<rparr>, tasks)"
proof -
  from assms(2) have nf: "findById oid tasks = None"
    by (simp add: findById_None_iff)
  have upd: "updateOne oid b tasks = tasks" for b
    using nf by (rule updateOne_absent)
  have put: "router_put True id_str req_body tasks = (\<lparr>status = 200, body = JsonNull\<rparr>, tasks)"
  proof (cases "req_body ''completed''")
    case None
    with assms(1) nf show ?thesis
      by (simp add: router_put_def findByIdAndUpdate_def json_of_def)
  next
    case (Some v)
    with assms(3) have "castBoolean v \<noteq> Inl CastError" by simp
    then obtain b where "castBoolean v = Inr b"
      using castBoolean_Inl by (cases "castBoolean v") auto
    with Some assms(1) nf upd show ?thesis
      by (simp add: router_put_def findByIdAndUpdate_def json_of_def)
  qed
  have "deleteOne oid tasks = tasks"
    using nf by (rule deleteOne_absent)
  with assms(1) have delete:
    "router_delete True id_str tasks = (\<lparr>status = 204, body = Empty\<rparr>, tasks)"
    by (simp add: router_delete_def findByIdAndDelete_def)
  from put delete show ?thesis
    by simp
qed

theorem missing_id_responses_witness:
  "castObjectId ''507f191e810c19729de860ea'' = Some 0x507f191e810c19729de860ea
   \<and> (0x507f191e810c19729de860ea :: object_id)
        \<notin> task_id ` set [\<lparr>task_id = 0x507f1f77bcf86cd799439011, title = Some ''Buy milk'',
                            completed = Some False\<rparr>]
   \<and> [''completed'' \<mapsto> JBool True] ''completed'' = Some (JBool True)
   \<and> castBoolean (JBool True) \<noteq> Inl CastError
   \<and> router_put True ''507f191e810c19729de860ea'' [''completed'' \<mapsto> JBool True]
        [\<lparr>task_id = 0x507f1f77bcf86cd799439011, title = Some ''Buy milk'',
          completed = Some False\<rparr>]
       = (\<lparr>status = 200, body = JsonNull\<rparr>,
          [\<lparr>task_id = 0x507f1f77bcf86cd799439011, title = Some ''Buy milk'',
            completed = Some False\<rparr>])
   \<and> router_delete True ''507f191e810c19729de860ea''
        [\<lparr>task_id = 0x507f1f77bcf86cd799439011, title = Some ''Buy milk'',
          completed = Some False\<rparr>]
       = (\<lparr>status = 204, body = Empty\<rparr>,
          [\<lparr>task_id = 0x507f1f77bcf86cd799439011, title = Some ''Buy milk'',
            completed = Some False\<rparr>])"
proof -
  have c: "castObjectId ''507f191e810c19729de860ea'' = Some 0x507f191e810c19729de860ea"
    by (simp add: castObjectId_def hexDigitValue_def)
  have m: "(0x507f191e810c19729de860ea :: object_id)
        \<notin> task_id ` set [\<lparr>task_id = 0x507f1f77bcf86cd799439011, title = Some ''Buy milk'',
                            completed = Some False\<rparr>]"
    by simp
  have b: "\<forall>v. [''completed'' \<mapsto> JBool True] ''completed'' = Some v
          \<longrightarrow> castBoolean v \<noteq> Inl CastError"
    by simp
  from missing_id_responses [where req_body = "[''completed'' \<mapsto> JBool True]", OF c m b]
    c m
  show ?thesis
    by (intro conjI) simp_all
qed

end
